theory Spec2Isabelle
  imports Complex_Main "HOL-Library.Log_Nat"
begin

section \<open>What the two applications rest on\<close>

text \<open>
  The repository holds two Flask applications with the same routes: \<^verbatim>\<open>app.py\<close> keeps
  users, watchlists and holdings in three module-level lists, \<^verbatim>\<open>app_aws.py\<close> keeps
  them in three DynamoDB tables.  Both call into Python and its libraries for things
  whose code is not in the repository: \<^verbatim>\<open>int()\<close> and \<^verbatim>\<open>float()\<close> on form fields,
  arithmetic and comparison on \<^verbatim>\<open>float\<close> (\<^verbatim>\<open>app.py\<close>) and \<^verbatim>\<open>Decimal\<close>
  (\<^verbatim>\<open>app_aws.py\<close>) amounts, werkzeug's password hashing, and the last row of each
  company's CSV file.  These are the fields of a \<open>runtime\<close>, which every route takes
  as its first argument; \<open>'m\<close> is the type of money amounts.  A theorem stated for
  every runtime holds whatever rounding the arithmetic performs.  The CSV files are
  taken to be there and to have a last row.

  An exception that a route does not catch ends the request (Flask answers 500, or
  400 for a missing form field); the model returns it as \<open>Raise\<close>, with the stores as
  they were when it was raised.
\<close>

datatype exn = KeyError | ValueError | TypeError | OverflowError | StopIteration
  | BadRequestKeyError

record 'm runtime =
  py_int :: "string \<Rightarrow> int option"  \<comment> \<open>\<^verbatim>\<open>int(s)\<close>; \<open>None\<close> when it raises ValueError\<close>
  py_float :: "string \<Rightarrow> 'm option"  \<comment> \<open>\<^verbatim>\<open>float(s)\<close>; \<open>None\<close> when it raises ValueError\<close>
  num_of_int :: "int \<Rightarrow> 'm"  \<comment> \<open>the amount a Python \<^verbatim>\<open>int\<close> stands for\<close>
  num_mul :: "int \<Rightarrow> 'm \<Rightarrow> 'm option"
    \<comment> \<open>\<^verbatim>\<open>qty * price\<close> and \<^verbatim>\<open>price * qty\<close>; \<open>None\<close> when the \<^verbatim>\<open>int\<close> is too
        large to convert (OverflowError)\<close>
  num_sub :: "'m \<Rightarrow> 'm \<Rightarrow> 'm"
  num_add :: "'m \<Rightarrow> 'm \<Rightarrow> 'm"
  num_lt :: "'m \<Rightarrow> 'm \<Rightarrow> bool"
  generate_password_hash :: "string \<Rightarrow> string"
  check_password_hash :: "string \<Rightarrow> string \<Rightarrow> bool"
  latest :: "string \<Rightarrow> 'm \<times> string"
    \<comment> \<open>for a CSV file name, \<^verbatim>\<open>round(float(Close), 2)\<close> and \<^verbatim>\<open>Date\<close> of its last row\<close>

type_synonym form = "string \<rightharpoonup> string"

datatype endpoint = To_login | To_dashboard | To_portfolio_page

text \<open>The flashed messages; the source's text is given beside each.\<close>

datatype message =
    Email_already_registered  \<comment> \<open>"Email already registered. Please login."\<close>
  | Account_created  \<comment> \<open>"Account created successfully. Please login."\<close>
  | Account_already_exists  \<comment> \<open>"Account already exists. Please login."\<close>
  | Signup_successful  \<comment> \<open>"Signup successful. Login now."\<close>
  | Bad_credentials  \<comment> \<open>"User not registered or incorrect password"\<close>
  | Login_first  \<comment> \<open>"Login first"\<close>
  | Session_expired  \<comment> \<open>"Session expired"\<close>
  | Invalid_quantity  \<comment> \<open>"Invalid quantity"\<close>
  | Stock_not_found  \<comment> \<open>"Stock not found"\<close>
  | Insufficient_balance  \<comment> \<open>"Insufficient balance"\<close>
  | Bought int string  \<comment> \<open>"Bought {qty} shares of {company}"\<close>
  | Not_enough_quantity  \<comment> \<open>"Not enough quantity to sell"\<close>
  | Stock_sold  \<comment> \<open>"Stock sold successfully"\<close>
  | Logged_out  \<comment> \<open>"Logged out successfully"\<close>

datatype response =
    Redirect endpoint "message option"
  | Render string "message option"
  | Raise exn

definition COMPANIES :: "(string \<times> string) list" where
  "COMPANIES =
     [(''Apple'', ''Apple.csv''), (''Google'', ''Google.csv''), (''Amazon'', ''Amazon.csv''),
      (''Netflix'', ''Netflix.csv''), (''Facebook'', ''Facebook.csv''),
      (''Microsoft'', ''Microsoft.csv''), (''Tesla'', ''Tesla.csv''), (''Uber'', ''Uber.csv''),
      (''Walmart'', ''Walmart.csv''), (''Zoom'', ''Zoom.csv'')]"

text \<open>
  \<^verbatim>\<open>next((x for x in xs if P(x)), None)\<close> yields a reference to the first element that
  satisfies \<open>P\<close>, and the routes then assign to its fields.  The model finds the
  element's position and updates the list there.
\<close>

fun first_index :: "('a \<Rightarrow> bool) \<Rightarrow> 'a list \<Rightarrow> nat option" where
  "first_index P [] = None"
| "first_index P (x # xs) = (if P x then Some 0 else map_option Suc (first_index P xs))"

section \<open>\<^verbatim>\<open>app.py\<close>: the in-memory application\<close>

record 'm user =
  uid :: nat
  name :: string
  email :: string
  password :: string
  balance :: 'm

record watch =
  w_user :: string
  w_company :: string

record 'm holding =
  user :: string
  company :: string
  quantity :: int
  buy_price :: 'm

record 'm stock =
  s_company :: string
  price :: 'm
  date :: string

record 'm store =
  users :: "'m user list"
  watchlists :: "watch list"
  portfolio :: "'m holding list"

text \<open>
  The session cookie of \<^verbatim>\<open>app.py\<close> holds one key, \<^verbatim>\<open>"user"\<close>; a session is the
  value under it, if any.  Each request brings its session and gets the new one back.
\<close>

type_synonym session = "string option"

definition load_latest_prices :: "'m runtime \<Rightarrow> 'm stock list" where
  "load_latest_prices rt =
     map (\<lambda>(c, file). \<lparr>s_company = c, price = fst (latest rt file), date = snd (latest rt file)\<rparr>)
       COMPANIES"

definition get_user :: "session \<Rightarrow> 'm user list \<Rightarrow> nat option" where
  "get_user sess us =
     (case sess of
        None \<Rightarrow> None
      | Some username \<Rightarrow>
          if username = [] then None else first_index (\<lambda>u. name u = username) us)"

definition buy_stock ::
  "'m runtime \<Rightarrow> session \<Rightarrow> 'm store \<Rightarrow> string \<Rightarrow> form \<Rightarrow> session \<times> 'm store \<times> response"
where
  "buy_stock rt sess st co frm =
     (case sess of
        None \<Rightarrow> (sess, st, Redirect To_login (Some Login_first))
      | Some username \<Rightarrow>
     (case get_user sess (users st) of
        None \<Rightarrow> (None, st, Redirect To_login (Some Session_expired))
      | Some i \<Rightarrow>
     (case Option.bind (frm ''quantity'') (py_int rt) of
        None \<Rightarrow> (sess, st, Redirect To_dashboard (Some Invalid_quantity))
      | Some qty \<Rightarrow>
     (case find (\<lambda>s. s_company s = co) (load_latest_prices rt) of
        None \<Rightarrow> (sess, st, Redirect To_dashboard (Some Stock_not_found))
      | Some stock \<Rightarrow>
     (case num_mul rt qty (price stock) of
        None \<Rightarrow> (sess, st, Raise OverflowError)
      | Some total_cost \<Rightarrow>
          if num_lt rt (balance (users st ! i)) total_cost
          then (sess, st, Redirect To_dashboard (Some Insufficient_balance))
          else
            (sess,
             st\<lparr>users := (users st)[i := (users st ! i)\<lparr>balance := num_sub rt (balance (users st ! i)) total_cost\<rparr>],
                portfolio := portfolio st @
                  [\<lparr>user = username, company = co, quantity = qty,
                    buy_price = price stock\<rparr>]\<rparr>,
             Redirect To_portfolio_page (Some (Bought qty co))))))))"

text \<open>
  \<^verbatim>\<open>sell_stock\<close> has no \<^verbatim>\<open>try\<close>: a missing or unparsable field raises.
  \<^verbatim>\<open>portfolio.remove(holding)\<close> deletes the first element equal to the holding,
  which is \<open>remove1\<close>.
\<close>

definition sell_stock ::
  "'m runtime \<Rightarrow> session \<Rightarrow> 'm store \<Rightarrow> string \<Rightarrow> form \<Rightarrow> session \<times> 'm store \<times> response"
where
  "sell_stock rt sess st co frm =
     (case sess of
        None \<Rightarrow> (sess, st, Redirect To_login None)
      | Some username \<Rightarrow>
     (case frm ''quantity'' of
        None \<Rightarrow> (sess, st, Raise BadRequestKeyError)
      | Some qs \<Rightarrow>
     (case py_int rt qs of
        None \<Rightarrow> (sess, st, Raise ValueError)
      | Some qty_to_sell \<Rightarrow>
     (case frm ''sell_price'' of
        None \<Rightarrow> (sess, st, Raise BadRequestKeyError)
      | Some ps \<Rightarrow>
     (case py_float rt ps of
        None \<Rightarrow> (sess, st, Raise ValueError)
      | Some sell_price \<Rightarrow>
     (case first_index (\<lambda>p. user p = username \<and> company p = co) (portfolio st) of
        None \<Rightarrow> (sess, st, Redirect To_portfolio_page (Some Not_enough_quantity))
      | Some j \<Rightarrow>
          if quantity (portfolio st ! j) < qty_to_sell
          then (sess, st, Redirect To_portfolio_page (Some Not_enough_quantity))
          else
     (case get_user sess (users st) of
        None \<Rightarrow> (sess, st, Raise TypeError)
      | Some i \<Rightarrow>
     (case num_mul rt qty_to_sell sell_price of
        None \<Rightarrow> (sess, st, Raise OverflowError)
      | Some proceeds \<Rightarrow>
          let h = (portfolio st ! j)\<lparr>quantity := quantity (portfolio st ! j) - qty_to_sell\<rparr>;
              held = (portfolio st)[j := h]
          in (sess,
              st\<lparr>users := (users st)[i := (users st ! i)\<lparr>balance := num_add rt (balance (users st ! i)) proceeds\<rparr>],
                 portfolio := (if quantity h = 0 then remove1 h held else held)\<rparr>,
              Redirect To_portfolio_page (Some Stock_sold))))))))))"

datatype http_method = GET | POST

definition signup ::
  "'m runtime \<Rightarrow> session \<Rightarrow> 'm store \<Rightarrow> http_method \<Rightarrow> form \<Rightarrow> session \<times> 'm store \<times> response"
where
  "signup rt sess st meth frm =
     (if meth = POST then
        (case frm ''email'' of
           None \<Rightarrow> (sess, st, Raise BadRequestKeyError)
         | Some em \<Rightarrow>
             if list_ex (\<lambda>u. email u = em) (users st)
             then (sess, st, Redirect To_login (Some Email_already_registered))
             else
        (case frm ''name'' of
           None \<Rightarrow> (sess, st, Raise BadRequestKeyError)
         | Some nm \<Rightarrow>
        (case frm ''password'' of
           None \<Rightarrow> (sess, st, Raise BadRequestKeyError)
         | Some pw \<Rightarrow>
             (sess,
              st\<lparr>users := users st @
                   [\<lparr>uid = length (users st) + 1, name = nm, email = em,
                     password = generate_password_hash rt pw,
                     balance = num_of_int rt 100000\<rparr>]\<rparr>,
              Redirect To_login (Some Account_created)))))
      else (sess, st, Render ''signup.html'' None))"

definition login ::
  "'m runtime \<Rightarrow> session \<Rightarrow> 'm store \<Rightarrow> http_method \<Rightarrow> form \<Rightarrow> session \<times> 'm store \<times> response"
where
  "login rt sess st meth frm =
     (if meth = POST then
        (case frm ''email'' of
           None \<Rightarrow> (sess, st, Raise BadRequestKeyError)
         | Some em \<Rightarrow>
        (case frm ''password'' of
           None \<Rightarrow> (sess, st, Raise BadRequestKeyError)
         | Some pw \<Rightarrow>
        (case find (\<lambda>u. email u = em) (users st) of
           None \<Rightarrow> (sess, st, Render ''login.html'' (Some Bad_credentials))
         | Some u \<Rightarrow>
             if check_password_hash rt (password u) pw
             then (Some (name u), st, Redirect To_dashboard None)
             else (sess, st, Render ''login.html'' (Some Bad_credentials)))))
      else (sess, st, Render ''login.html'' None))"

definition logout :: "session \<Rightarrow> 'm store \<Rightarrow> session \<times> 'm store \<times> response" where
  "logout sess st = (None, st, Redirect To_login (Some Logged_out))"

text \<open>
  \<^verbatim>\<open>add_to_watchlist\<close> reads \<^verbatim>\<open>session["user"]\<close> without checking that the key is
  there: with no user in the session it raises KeyError, in the generator when the
  watchlist has entries and in the dictionary display when it has none.
\<close>

definition add_to_watchlist ::
  "session \<Rightarrow> 'm store \<Rightarrow> string \<Rightarrow> session \<times> 'm store \<times> response"
where
  "add_to_watchlist sess st co =
     (case sess of
        None \<Rightarrow> (sess, st, Raise KeyError)
      | Some username \<Rightarrow>
          if \<not> list_ex (\<lambda>w. w_user w = username \<and> w_company w = co) (watchlists st)
          then (sess,
                st\<lparr>watchlists := watchlists st @ [\<lparr>w_user = username, w_company = co\<rparr>]\<rparr>,
                Redirect To_dashboard None)
          else (sess, st, Redirect To_dashboard None))"

text \<open>
  \<^verbatim>\<open>portfolio_page\<close> is the valuation.  It assigns to no list and to no field of
  an element.  The view it renders multiplies each price by \<^verbatim>\<open>random.uniform(0.95, 1.05)\<close>;
  the model keeps what decides the response: no price for a held company ends the
  \<^verbatim>\<open>next(...)\<close> without default (StopIteration), and a session whose user is not in
  \<^verbatim>\<open>users\<close> fails at \<^verbatim>\<open>user["balance"]\<close> (TypeError).
\<close>

definition portfolio_page ::
  "'m runtime \<Rightarrow> session \<Rightarrow> 'm store \<Rightarrow> session \<times> 'm store \<times> response"
where
  "portfolio_page rt sess st =
     (case sess of
        None \<Rightarrow> (sess, st, Redirect To_login None)
      | Some username \<Rightarrow>
          let user_portfolio = filter (\<lambda>p. user p = username) (portfolio st) in
          if list_ex (\<lambda>p. find (\<lambda>s. s_company s = company p) (load_latest_prices rt) = None)
               user_portfolio
          then (sess, st, Raise StopIteration)
          else
            (case get_user sess (users st) of
               None \<Rightarrow> (sess, st, Raise TypeError)
             | Some i \<Rightarrow> (sess, st, Render ''portfolio.html'' None)))"

subsection \<open>Requests and runs\<close>

text \<open>
  A request is a call of one route.  A run is a list of requests, each with the
  session its client sends; the clients and the order are arbitrary, so a property of
  every run holds for every interleaving of every number of clients.  The routes that
  assign to no list and to no field of an element but only render a page (the
  dashboard, the watchlist page and the static pages) are not among the requests.
\<close>

datatype request =
    Signup http_method form
  | Login http_method form
  | Logout
  | Buy string form
  | Sell string form
  | Add_to_watchlist string
  | Portfolio

fun route ::
  "'m runtime \<Rightarrow> session \<Rightarrow> 'm store \<Rightarrow> request \<Rightarrow> session \<times> 'm store \<times> response"
where
  "route rt sess st (Signup meth frm) = signup rt sess st meth frm"
| "route rt sess st (Login meth frm) = login rt sess st meth frm"
| "route rt sess st Logout = logout sess st"
| "route rt sess st (Buy co frm) = buy_stock rt sess st co frm"
| "route rt sess st (Sell co frm) = sell_stock rt sess st co frm"
| "route rt sess st (Add_to_watchlist co) = add_to_watchlist sess st co"
| "route rt sess st Portfolio = portfolio_page rt sess st"

fun run :: "'m runtime \<Rightarrow> 'm store \<Rightarrow> (session \<times> request) list \<Rightarrow> 'm store" where
  "run rt st [] = st"
| "run rt st ((sess, r) # rs) = run rt (fst (snd (route rt sess st r))) rs"

definition empty_store :: "'m store" where
  "empty_store = \<lparr>users = [], watchlists = [], portfolio = []\<rparr>"

text \<open>
  What the spec's invariants say of a store.  \<open>b \<ge> 0\<close> is read as "not \<open>b < 0\<close>",
  with the comparison of the runtime.
\<close>

definition negative :: "'m runtime \<Rightarrow> 'm \<Rightarrow> bool" where
  "negative rt b = num_lt rt b (num_of_int rt 0)"

definition solvent :: "'m runtime \<Rightarrow> 'm store \<Rightarrow> bool" where
  "solvent rt st = list_all (\<lambda>u. \<not> negative rt (balance u)) (users st)"

definition all_positive :: "'m store \<Rightarrow> bool" where
  "all_positive st = list_all (\<lambda>p. 0 < quantity p) (portfolio st)"

text \<open>
  The shares of a company that a user holds in all: a user who buys a company twice
  has two records of it.
\<close>

definition held :: "string \<Rightarrow> string \<Rightarrow> 'm holding list \<Rightarrow> int" where
  "held username co ps =
     sum_list (map quantity (filter (\<lambda>p. user p = username \<and> company p = co) ps))"

text \<open>
  Two conditions on a request, for the runs in which the invariants are kept: a buy
  whose quantity parses asks for a positive number of shares, and a sell whose fields
  parse yields proceeds \<^verbatim>\<open>sell_price * qty\<close> that are not negative.  Neither
  route checks its condition.
\<close>

fun buys_positive :: "'m runtime \<Rightarrow> request \<Rightarrow> bool" where
  "buys_positive rt (Buy co frm) =
     (case Option.bind (frm ''quantity'') (py_int rt) of
        None \<Rightarrow> True
      | Some qty \<Rightarrow> 0 < qty)"
| "buys_positive rt r = True"

fun proceeds_not_negative :: "'m runtime \<Rightarrow> request \<Rightarrow> bool" where
  "proceeds_not_negative rt (Sell co frm) =
     (case Option.bind (frm ''quantity'') (py_int rt) of
        None \<Rightarrow> True
      | Some qty_to_sell \<Rightarrow>
     (case Option.bind (frm ''sell_price'') (py_float rt) of
        None \<Rightarrow> True
      | Some sell_price \<Rightarrow>
     (case num_mul rt qty_to_sell sell_price of
        None \<Rightarrow> True
      | Some proceeds \<Rightarrow> \<not> negative rt proceeds)))"
| "proceeds_not_negative rt r = True"

section \<open>\<^verbatim>\<open>app_aws.py\<close>: the DynamoDB application\<close>

text \<open>
  A table is a map from its primary key to the item.  \<^verbatim>\<open>Users\<close> is read with
  \<^verbatim>\<open>get_item(Key={"email": ...})\<close>, so its key is the email.  \<^verbatim>\<open>Portfolio\<close> and
  \<^verbatim>\<open>Watchlist\<close> are queried by email and list one item per company; their key is
  taken to be (email, company), the table definitions not being part of the repository.
  The calls to DynamoDB and SNS are taken to succeed.  Amounts are \<^verbatim>\<open>Decimal\<close>: for
  this application \<open>latest\<close> is \<^verbatim>\<open>Decimal(str(round(float(Close), 2)))\<close>, \<open>num_mul\<close>
  is \<^verbatim>\<open>price * Decimal(qty)\<close> and \<open>num_sub\<close> is the subtraction DynamoDB performs
  for \<^verbatim>\<open>SET balance = balance - :amt\<close>.
\<close>

record 'm aws_user =
  a_email :: string
  a_name :: string
  a_password :: string
  a_balance :: 'm

record 'm aws_holding =
  h_email :: string
  h_company :: string
  h_quantity :: int
  h_buy_price :: 'm

record 'm aws_store =
  users_table :: "string \<rightharpoonup> 'm aws_user"
  portfolio_table :: "string \<times> string \<rightharpoonup> 'm aws_holding"
  watchlist_table :: "(string \<times> string) set"

text \<open>The session holds \<^verbatim>\<open>"email"\<close> and \<^verbatim>\<open>"user"\<close>, set together at login.\<close>

type_synonym aws_session = "(string \<times> string) option"

definition get_latest_price :: "'m runtime \<Rightarrow> string \<Rightarrow> exn + 'm \<times> string" where
  "get_latest_price rt co =
     (case map_of COMPANIES co of
        None \<Rightarrow> Inl KeyError
      | Some file \<Rightarrow> Inr (latest rt file))"

definition aws_get_user :: "aws_session \<Rightarrow> 'm aws_store \<Rightarrow> 'm aws_user option" where
  "aws_get_user sess st =
     (case sess of
        None \<Rightarrow> None
      | Some (em, username) \<Rightarrow> users_table st em)"

definition aws_signup ::
  "'m runtime \<Rightarrow> aws_session \<Rightarrow> 'm aws_store \<Rightarrow> http_method \<Rightarrow> form \<Rightarrow>
     aws_session \<times> 'm aws_store \<times> response"
where
  "aws_signup rt sess st meth frm =
     (if meth = POST then
        (case frm ''email'' of
           None \<Rightarrow> (sess, st, Raise BadRequestKeyError)
         | Some em \<Rightarrow>
        (case users_table st em of
           Some existing \<Rightarrow> (sess, st, Redirect To_login (Some Account_already_exists))
         | None \<Rightarrow>
        (case frm ''name'' of
           None \<Rightarrow> (sess, st, Raise BadRequestKeyError)
         | Some nm \<Rightarrow>
        (case frm ''password'' of
           None \<Rightarrow> (sess, st, Raise BadRequestKeyError)
         | Some pw \<Rightarrow>
             (sess,
              st\<lparr>users_table := (users_table st)(em \<mapsto>
                   \<lparr>a_email = em, a_name = nm, a_password = generate_password_hash rt pw,
                    a_balance = num_of_int rt 100000\<rparr>)\<rparr>,
              Redirect To_login (Some Signup_successful))))))
      else (sess, st, Render ''signup.html'' None))"

definition aws_login ::
  "'m runtime \<Rightarrow> aws_session \<Rightarrow> 'm aws_store \<Rightarrow> http_method \<Rightarrow> form \<Rightarrow>
     aws_session \<times> 'm aws_store \<times> response"
where
  "aws_login rt sess st meth frm =
     (if meth = POST then
        (case frm ''email'' of
           None \<Rightarrow> (sess, st, Raise BadRequestKeyError)
         | Some em \<Rightarrow>
        (case frm ''password'' of
           None \<Rightarrow> (sess, st, Raise BadRequestKeyError)
         | Some pw \<Rightarrow>
        (case users_table st em of
           None \<Rightarrow> (sess, st, Redirect To_login (Some Bad_credentials))
         | Some u \<Rightarrow>
             if \<not> check_password_hash rt (a_password u) pw
             then (sess, st, Redirect To_login (Some Bad_credentials))
             else (Some (em, a_name u), st, Redirect To_dashboard None))))
      else (sess, st, Render ''login.html'' None))"

text \<open>
  \<^verbatim>\<open>buy_stock\<close> of \<^verbatim>\<open>app_aws.py\<close> has no \<^verbatim>\<open>try\<close> around \<^verbatim>\<open>int(...)\<close>, and
  \<^verbatim>\<open>get_latest_price\<close> indexes \<^verbatim>\<open>COMPANIES\<close> with the company of the URL.
\<close>

definition aws_buy_stock ::
  "'m runtime \<Rightarrow> aws_session \<Rightarrow> 'm aws_store \<Rightarrow> string \<Rightarrow> form \<Rightarrow>
     aws_session \<times> 'm aws_store \<times> response"
where
  "aws_buy_stock rt sess st co frm =
     (case sess of
        None \<Rightarrow> (sess, st, Redirect To_login None)
      | Some (em, username) \<Rightarrow>
     (case frm ''quantity'' of
        None \<Rightarrow> (sess, st, Raise BadRequestKeyError)
      | Some qs \<Rightarrow>
     (case py_int rt qs of
        None \<Rightarrow> (sess, st, Raise ValueError)
      | Some qty \<Rightarrow>
     (case get_latest_price rt co of
        Inl e \<Rightarrow> (sess, st, Raise e)
      | Inr (px, asof) \<Rightarrow>
     (case num_mul rt qty px of
        None \<Rightarrow> (sess, st, Raise OverflowError)
      | Some total_cost \<Rightarrow>
     (case aws_get_user sess st of
        None \<Rightarrow> (sess, st, Raise TypeError)
      | Some u \<Rightarrow>
          if num_lt rt (a_balance u) total_cost
          then (sess, st, Redirect To_dashboard (Some Insufficient_balance))
          else
            (sess,
             st\<lparr>users_table := (users_table st)(em \<mapsto>
                  u\<lparr>a_balance := num_sub rt (a_balance u) total_cost\<rparr>),
                portfolio_table := (portfolio_table st)((em, co) \<mapsto>
                  \<lparr>h_email = em, h_company = co, h_quantity = qty, h_buy_price = px\<rparr>)\<rparr>,
             Redirect To_portfolio_page (Some (Bought qty co)))))))))"

definition aws_add_to_watchlist ::
  "aws_session \<Rightarrow> 'm aws_store \<Rightarrow> string \<Rightarrow> aws_session \<times> 'm aws_store \<times> response"
where
  "aws_add_to_watchlist sess st co =
     (case sess of
        None \<Rightarrow> (sess, st, Raise KeyError)
      | Some (em, username) \<Rightarrow>
          (sess, st\<lparr>watchlist_table := insert (em, co) (watchlist_table st)\<rparr>,
           Redirect To_dashboard None))"

section \<open>Two runtimes\<close>

text \<open>
  The concrete inputs of this development are evaluated in one of two runtimes.
  Both read a form field with \<open>plain_int\<close> and \<open>plain_decimal\<close>, which accept an
  optional minus sign and decimal digits (with a fraction for \<open>plain_decimal\<close>):
  on such a string \<^verbatim>\<open>int()\<close> and \<^verbatim>\<open>float()\<close> return the same number, and a string
  of letters is refused by both.
\<close>

definition digit_of :: "char \<Rightarrow> nat option" where
  "digit_of c =
     map_of [(CHR ''0'', 0), (CHR ''1'', 1), (CHR ''2'', 2), (CHR ''3'', 3), (CHR ''4'', 4),
             (CHR ''5'', 5), (CHR ''6'', 6), (CHR ''7'', 7), (CHR ''8'', 8), (CHR ''9'', 9)] c"

fun digits_value :: "nat \<Rightarrow> string \<Rightarrow> nat option" where
  "digits_value acc [] = Some acc"
| "digits_value acc (c # cs) =
     (case digit_of c of None \<Rightarrow> None | Some d \<Rightarrow> digits_value (10 * acc + d) cs)"

definition plain_nat :: "string \<Rightarrow> nat option" where
  "plain_nat s = (if s = [] then None else digits_value 0 s)"

definition plain_int :: "string \<Rightarrow> int option" where
  "plain_int s =
     (case s of
        [] \<Rightarrow> None
      | c # cs \<Rightarrow>
          if c = CHR ''-'' then map_option (\<lambda>n. - int n) (plain_nat cs)
          else map_option int (plain_nat s))"

definition plain_fraction :: "string \<Rightarrow> rat option" where
  "plain_fraction s =
     (let whole = takeWhile (\<lambda>c. c \<noteq> CHR ''.'') s;
          rest = dropWhile (\<lambda>c. c \<noteq> CHR ''.'') s
      in case plain_nat whole of
           None \<Rightarrow> None
         | Some w \<Rightarrow>
             if rest = [] then Some (of_nat w)
             else (case plain_nat (tl rest) of
                     None \<Rightarrow> None
                   | Some f \<Rightarrow> Some (of_nat w + of_nat f / 10 ^ length (tl rest))))"

definition plain_decimal :: "string \<Rightarrow> rat option" where
  "plain_decimal s =
     (case s of
        [] \<Rightarrow> None
      | c # cs \<Rightarrow>
          if c = CHR ''-'' then map_option uminus (plain_fraction cs)
          else plain_fraction s)"

text \<open>
  The exact runtime computes with rationals and never rounds.  Where every operand and
  every result is an integer below \<open>2 ^ 53\<close> in absolute value, \<^verbatim>\<open>float\<close>
  arithmetic gives the same results.
\<close>

definition exact_runtime :: "(string \<Rightarrow> rat \<times> string) \<Rightarrow> rat runtime" where
  "exact_runtime rows =
     \<lparr>py_int = plain_int, py_float = plain_decimal, num_of_int = of_int,
      num_mul = (\<lambda>q p. Some (of_int q * p)),
      num_sub = (\<lambda>a b. a - b), num_add = (\<lambda>a b. a + b), num_lt = (\<lambda>a b. a < b),
      generate_password_hash = (\<lambda>pw. ''hash:'' @ pw),
      check_password_hash = (\<lambda>h pw. h = ''hash:'' @ pw),
      latest = rows\<rparr>"

definition sample_rows :: "string \<Rightarrow> rat \<times> string" where
  "sample_rows file =
     (if file = ''Apple.csv'' then (150, ''2024-01-02'') else (100, ''2024-01-02''))"

text \<open>
  The double runtime is \<^verbatim>\<open>float\<close> as CPython computes it: IEEE 754 binary64, every
  operation the exact result rounded to the nearest double, ties to the even
  significand.  A finite double is the rational it stands for; \<open>to_double\<close> rounds a
  rational to 53 significant bits (fewer below \<open>2 ^ -1022\<close>).  Infinities and NaN have
  no counterpart here, so the runtime is meant for results below \<open>2 ^ 1024\<close>.
\<close>

definition pow2 :: "int \<Rightarrow> rat" where
  "pow2 k = (if 0 \<le> k then 2 ^ nat k else 1 / 2 ^ nat (- k))"

definition round_half_even :: "rat \<Rightarrow> int" where
  "round_half_even x =
     (let f = \<lfloor>x\<rfloor>; d = x - of_int f
      in if d < 1 / 2 then f else if 1 / 2 < d then f + 1 else if even f then f else f + 1)"

text \<open>\<open>ilog2 x\<close> is the \<open>k\<close> with \<open>2 ^ k \<le> x < 2 ^ (k + 1)\<close>, for positive \<open>x\<close>.\<close>

definition ilog2 :: "rat \<Rightarrow> int" where
  "ilog2 x =
     (let k = bitlen (fst (quotient_of x)) - bitlen (snd (quotient_of x))
      in if pow2 k \<le> x then k else k - 1)"

definition to_double :: "rat \<Rightarrow> rat" where
  "to_double x =
     (if x = 0 then 0
      else
        let e = max (ilog2 \<bar>x\<bar> - 52) (- 1074)
        in sgn x * of_int (round_half_even (\<bar>x\<bar> / pow2 e)) * pow2 e)"

definition double_runtime :: "(string \<Rightarrow> rat \<times> string) \<Rightarrow> rat runtime" where
  "double_runtime rows =
     \<lparr>py_int = plain_int, py_float = (\<lambda>s. map_option to_double (plain_decimal s)),
      num_of_int = (\<lambda>n. to_double (of_int n)),
      num_mul = (\<lambda>q p.
        if \<bar>to_double (of_int q)\<bar> < pow2 1024
        then Some (to_double (to_double (of_int q) * p)) else None),
      num_sub = (\<lambda>a b. to_double (a - b)), num_add = (\<lambda>a b. to_double (a + b)),
      num_lt = (\<lambda>a b. a < b),
      generate_password_hash = (\<lambda>pw. ''hash:'' @ pw),
      check_password_hash = (\<lambda>h pw. h = ''hash:'' @ pw),
      latest = (\<lambda>file. (to_double (fst (rows file)), snd (rows file)))\<rparr>"

definition quoted_rows :: "string \<Rightarrow> rat \<times> string" where
  "quoted_rows file =
     (if file = ''Apple.csv'' then (32399 / 100, ''2024-01-02'') else (4811 / 100, ''2024-01-02''))"

text \<open>The stores of the concrete inputs: one account, \<open>bob\<close>, with a balance and holdings.\<close>

definition one_user :: "rat \<Rightarrow> rat holding list \<Rightarrow> rat store" where
  "one_user b hs =
     \<lparr>users = [\<lparr>uid = 1, name = ''bob'', email = ''bob@example.org'',
                password = ''hash:secret'', balance = b\<rparr>],
      watchlists = [], portfolio = hs\<rparr>"

definition aws_one_user :: "rat \<Rightarrow> rat aws_store" where
  "aws_one_user b =
     \<lparr>users_table = [''bob@example.org'' \<mapsto>
        \<lparr>a_email = ''bob@example.org'', a_name = ''bob'', a_password = ''hash:secret'',
         a_balance = b\<rparr>],
      portfolio_table = Map.empty, watchlist_table = {}\<rparr>"

text \<open>
  The first two requests of the concrete runs: \<open>bob\<close> signs up and logs in.  From the
  empty store they lead to \<open>one_user 100000 []\<close> and to the session \<open>Some ''bob''\<close>.
\<close>

definition bob_form :: form where
  "bob_form = [''name'' \<mapsto> ''bob'', ''email'' \<mapsto> ''bob@example.org'', ''password'' \<mapsto> ''secret'']"

definition sign_in :: "(session \<times> request) list" where
  "sign_in = [(None, Signup POST bob_form), (None, Login POST bob_form)]"

section \<open>Properties\<close>

lemma first_index_Some:
  "first_index P xs = Some i \<Longrightarrow> i < length xs \<and> P (xs ! i) \<and> (\<forall>k<i. \<not> P (xs ! k))"
proof (induction xs arbitrary: i)
  case Nil
  then show ?case by simp
next
  case (Cons x xs)
  show ?case
  proof (cases "P x")
    case True
    with Cons.prems show ?thesis by simp
  next
    case False
    with Cons.prems obtain k where k: "first_index P xs = Some k" "i = Suc k"
      by auto
    from Cons.IH [OF k(1)] False k(2) show ?thesis
      by (auto simp: less_Suc_eq_0_disj)
  qed
qed

lemmas eval_defs =
  plain_int_def plain_nat_def plain_decimal_def plain_fraction_def digit_of_def
  exact_runtime_def sample_rows_def COMPANIES_def load_latest_prices_def get_user_def
  one_user_def aws_one_user_def get_latest_price_def aws_get_user_def
  bob_form_def sign_in_def empty_store_def

lemma find_rows:
  "find (\<lambda>s. s_company s = co)
     (map (\<lambda>(c, file). \<lparr>s_company = c, price = f file, date = g file\<rparr>) xs) =
   map_option (\<lambda>file. \<lparr>s_company = co, price = f file, date = g file\<rparr>) (map_of xs co)"
  by (induction xs) auto

lemma find_price:
  "find (\<lambda>s. s_company s = co) (load_latest_prices rt) =
     map_option
       (\<lambda>file. \<lparr>s_company = co, price = fst (latest rt file), date = snd (latest rt file)\<rparr>)
       (map_of COMPANIES co)"
  unfolding load_latest_prices_def by (rule find_rows)

lemma list_all_update:
  "list_all P xs \<Longrightarrow> P x \<Longrightarrow> list_all P (xs[i := x])"
  by (induction xs arbitrary: i) (auto split: nat.splits)

lemma get_user_Some:
  "get_user sess us = Some i \<Longrightarrow> i < length us"
  by (auto simp: get_user_def split: option.splits if_splits dest: first_index_Some)

text \<open>A buy returns the store it was given or debits the cost and appends a holding; a sell
  returns the store it was given or goes through.\<close>

lemma buy_stock_cases:
  assumes "buy_stock rt sess st co frm = (sess', st', resp)"
  shows "st' = st \<or>
    (\<exists>username i qty stock total_cost.
       sess = Some username \<and> get_user sess (users st) = Some i \<and>
       Option.bind (frm ''quantity'') (py_int rt) = Some qty \<and>
       find (\<lambda>s. s_company s = co) (load_latest_prices rt) = Some stock \<and>
       num_mul rt qty (price stock) = Some total_cost \<and>
       \<not> num_lt rt (balance (users st ! i)) total_cost \<and>
       resp = Redirect To_portfolio_page (Some (Bought qty co)) \<and> sess' = sess \<and>
       st' = st\<lparr>users := (users st)[i := (users st ! i)
                   \<lparr>balance := num_sub rt (balance (users st ! i)) total_cost\<rparr>],
                 portfolio := portfolio st @
                   [\<lparr>user = username, company = co, quantity = qty,
                     buy_price = price stock\<rparr>]\<rparr>)"
  using assms by (auto simp: buy_stock_def split: option.splits if_splits)

lemma sell_stock_cases:
  assumes "sell_stock rt sess st co frm = (sess', st', resp)"
  shows "st' = st \<or> resp = Redirect To_portfolio_page (Some Stock_sold)"
  using assms by (auto simp: sell_stock_def Let_def split: option.splits if_splits)

subsection \<open>Buying more than the balance pays for\<close>

text \<open>
  C4.  A logged-in account buys a company of \<open>COMPANIES\<close>, the quantity parses, and the
  cost the route computes, \<^verbatim>\<open>qty * price\<close>, is above the account's balance: then the
  route answers "Insufficient balance" and the users, the holdings and the watchlists
  are what they were.  This holds in \<^verbatim>\<open>app.py\<close> (first part) and in \<^verbatim>\<open>app_aws.py\<close>
  (second part), for every runtime.
\<close>

theorem buy_insufficient_balance:
  "(get_user sess (users st) = Some i \<and>
    Option.bind (frm ''quantity'') (py_int rt) = Some qty \<and>
    map_of COMPANIES co = Some file \<and>
    num_mul rt qty (fst (latest rt file)) = Some total_cost \<and>
    num_lt rt (balance (users st ! i)) total_cost
    \<longrightarrow> buy_stock rt sess st co frm =
          (sess, st, Redirect To_dashboard (Some Insufficient_balance)))
   \<and>
   (asess = Some (em, username) \<and> frm ''quantity'' = Some qs \<and> py_int rt qs = Some qty \<and>
    map_of COMPANIES co = Some file \<and>
    num_mul rt qty (fst (latest rt file)) = Some total_cost \<and>
    users_table ast em = Some u \<and> num_lt rt (a_balance u) total_cost
    \<longrightarrow> aws_buy_stock rt asess ast co frm =
          (asess, ast, Redirect To_dashboard (Some Insufficient_balance)))"
proof (intro conjI impI)
  assume a: "get_user sess (users st) = Some i \<and>
    Option.bind (frm ''quantity'') (py_int rt) = Some qty \<and>
    map_of COMPANIES co = Some file \<and>
    num_mul rt qty (fst (latest rt file)) = Some total_cost \<and>
    num_lt rt (balance (users st ! i)) total_cost"
  then obtain username where "sess = Some username"
    by (cases sess) (auto simp: get_user_def)
  with a show "buy_stock rt sess st co frm =
      (sess, st, Redirect To_dashboard (Some Insufficient_balance))"
    by (simp add: buy_stock_def find_price)
next
  assume "asess = Some (em, username) \<and> frm ''quantity'' = Some qs \<and>
    py_int rt qs = Some qty \<and> map_of COMPANIES co = Some file \<and>
    num_mul rt qty (fst (latest rt file)) = Some total_cost \<and>
    users_table ast em = Some u \<and> num_lt rt (a_balance u) total_cost"
  then show "aws_buy_stock rt asess ast co frm =
      (asess, ast, Redirect To_dashboard (Some Insufficient_balance))"
    by (auto simp: aws_buy_stock_def get_latest_price_def aws_get_user_def
          split: prod.splits)
qed

theorem buy_insufficient_balance_witness:
  "get_user (Some ''bob'') (users (one_user 100 [])) = Some 0 \<and>
   Option.bind ([''quantity'' \<mapsto> ''1''] ''quantity'') (py_int (exact_runtime sample_rows))
     = Some 1 \<and>
   map_of COMPANIES ''Apple'' = Some ''Apple.csv'' \<and>
   num_mul (exact_runtime sample_rows) 1 (fst (latest (exact_runtime sample_rows) ''Apple.csv''))
     = Some 150 \<and>
   num_lt (exact_runtime sample_rows) (balance (users (one_user 100 []) ! 0)) 150 \<and>
   buy_stock (exact_runtime sample_rows) (Some ''bob'') (one_user 100 []) ''Apple''
       [''quantity'' \<mapsto> ''1'']
     = (Some ''bob'', one_user 100 [], Redirect To_dashboard (Some Insufficient_balance)) \<and>
   users_table (aws_one_user 100) ''bob@example.org''
     = Some \<lparr>a_email = ''bob@example.org'', a_name = ''bob'', a_password = ''hash:secret'',
             a_balance = 100\<rparr> \<and>
   aws_buy_stock (exact_runtime sample_rows) (Some (''bob@example.org'', ''bob''))
       (aws_one_user 100) ''Apple'' [''quantity'' \<mapsto> ''1'']
     = (Some (''bob@example.org'', ''bob''), aws_one_user 100,
        Redirect To_dashboard (Some Insufficient_balance))"
  using buy_insufficient_balance
    [of "Some ''bob''" "one_user 100 []" 0 "[''quantity'' \<mapsto> ''1'']"
        "exact_runtime sample_rows" 1 "''Apple''" "''Apple.csv''" 150
        "Some (''bob@example.org'', ''bob'')" "''bob@example.org''" "''bob''" "''1''"
        "aws_one_user 100"
        "\<lparr>a_email = ''bob@example.org'', a_name = ''bob'', a_password = ''hash:secret'',
          a_balance = 100\<rparr>"]
  by (simp add: eval_defs)

subsection \<open>Selling more than is held\<close>



text \<open>
  The route compares with the first record only.  When no quantity of the portfolio is
  negative, that record holds no more than the user holds of the company in all, so
  asking for more than the whole is refused as well.
\<close>

lemma first_holding_le_held:
  "list_all (\<lambda>p. 0 \<le> quantity p) ps \<Longrightarrow>
   first_index (\<lambda>p. user p = username \<and> company p = co) ps = Some j \<Longrightarrow>
   quantity (ps ! j) \<le> held username co ps"
proof (induction ps arbitrary: j)
  case Nil
  then show ?case by simp
next
  case (Cons a ps)
  have rest: "0 \<le> held username co ps"
    using Cons.prems(1) unfolding held_def
    by (intro sum_list_nonneg) (auto simp: list_all_iff)
  show ?case
  proof (cases "user a = username \<and> company a = co")
    case True
    with Cons.prems rest show ?thesis by (simp add: held_def)
  next
    case False
    with Cons.prems obtain k where "first_index (\<lambda>p. user p = username \<and> company p = co) ps = Some k"
      "j = Suc k" by auto
    with Cons.IH [of k] Cons.prems(1) False show ?thesis by (simp add: held_def)
  qed
qed

lemma sell_more_than_total:
  assumes "sess = Some username" and "frm ''quantity'' = Some qs" and "py_int rt qs = Some q"
    and "frm ''sell_price'' = Some ps" and "py_float rt ps = Some sell_price"
    and "list_all (\<lambda>p. 0 \<le> quantity p) (portfolio st)"
    and "held username co (portfolio st) < q"
  shows "sell_stock rt sess st co frm =
         (sess, st, Redirect To_portfolio_page (Some Not_enough_quantity))"
proof (cases "first_index (\<lambda>p. user p = username \<and> company p = co) (portfolio st)")
  case None
  with assms show ?thesis by (simp add: sell_stock_def)
next
  case (Some j)
  from first_holding_le_held [OF assms(6) Some] assms(7)
  have "quantity (portfolio st ! j) < q" by simp
  with Some assms show ?thesis by (simp add: sell_stock_def)
qed

subsection \<open>Signing up twice\<close>

text \<open>
  C10.  A signup whose email is the email of a user in the store answers with a redirect
  to the login page and returns the store it was given: no user is added, and no field
  of a user is assigned.  This holds in \<^verbatim>\<open>app.py\<close> (first part) and in
  \<^verbatim>\<open>app_aws.py\<close> (second part).
\<close>

theorem signup_registered_email:
  "(frm ''email'' = Some em \<and> em \<in> email ` set (users st)
    \<longrightarrow> signup rt sess st POST frm = (sess, st, Redirect To_login (Some Email_already_registered)))
   \<and>
   (frm ''email'' = Some em \<and> users_table ast em = Some u
    \<longrightarrow> aws_signup rt asess ast POST frm =
          (asess, ast, Redirect To_login (Some Account_already_exists)))"
  by (auto simp: signup_def aws_signup_def list_ex_iff)

theorem signup_registered_email_witness:
  "[''email'' \<mapsto> ''bob@example.org'', ''name'' \<mapsto> ''eve'', ''password'' \<mapsto> ''x''] ''email''
     = Some ''bob@example.org'' \<and>
   ''bob@example.org'' \<in> email ` set (users (one_user 70 [])) \<and>
   signup (exact_runtime sample_rows) None (one_user 70 []) POST
     [''email'' \<mapsto> ''bob@example.org'', ''name'' \<mapsto> ''eve'', ''password'' \<mapsto> ''x'']
     = (None, one_user 70 [], Redirect To_login (Some Email_already_registered)) \<and>
   users_table (aws_one_user 70) ''bob@example.org''
     = Some \<lparr>a_email = ''bob@example.org'', a_name = ''bob'', a_password = ''hash:secret'',
             a_balance = 70\<rparr> \<and>
   aws_signup (exact_runtime sample_rows) None (aws_one_user 70) POST
     [''email'' \<mapsto> ''bob@example.org'', ''name'' \<mapsto> ''eve'', ''password'' \<mapsto> ''x'']
     = (None, aws_one_user 70, Redirect To_login (Some Account_already_exists))"
  using signup_registered_email
    [of "[''email'' \<mapsto> ''bob@example.org'', ''name'' \<mapsto> ''eve'', ''password'' \<mapsto> ''x'']"
        "''bob@example.org''" "one_user 70 []" "exact_runtime sample_rows" None
        "aws_one_user 70"
        "\<lparr>a_email = ''bob@example.org'', a_name = ''bob'', a_password = ''hash:secret'',
          a_balance = 70\<rparr>" None]
  by (simp add: eval_defs)

subsection \<open>Buying a company that is not configured\<close>

text \<open>
  In \<^verbatim>\<open>app.py\<close> a company outside \<open>COMPANIES\<close> is answered with "Stock not found" and
  the store is returned as it was.
\<close>

lemma buy_unknown_symbol:
  "get_user sess (users st) = Some i \<Longrightarrow> Option.bind (frm ''quantity'') (py_int rt) = Some qty \<Longrightarrow>
   map_of COMPANIES co = None \<Longrightarrow>
   buy_stock rt sess st co frm = (sess, st, Redirect To_dashboard (Some Stock_not_found))"
  by (cases sess) (auto simp: buy_stock_def find_price get_user_def)

text \<open>
  In \<^verbatim>\<open>app_aws.py\<close> the same request raises: \<^verbatim>\<open>COMPANIES[company]\<close> is a KeyError
  that no handler catches.
\<close>

lemma aws_buy_unknown_raises:
  "asess = Some (em, username) \<Longrightarrow> frm ''quantity'' = Some qs \<Longrightarrow> py_int rt qs = Some qty \<Longrightarrow>
   map_of COMPANIES co = None \<Longrightarrow>
   aws_buy_stock rt asess ast co frm = (asess, ast, Raise KeyError)"
  by (simp add: aws_buy_stock_def get_latest_price_def)

text \<open>
  C8.  The claim asks for the typed answer in both applications.  At the company
  \<^verbatim>\<open>DOGE\<close>, with a logged-in session and the quantity \<^verbatim>\<open>1\<close>, \<^verbatim>\<open>buy_stock\<close> of
  \<^verbatim>\<open>app_aws.py\<close> ends in the uncaught KeyError; the tables are unchanged.
\<close>

theorem aws_buy_unknown_symbol:
  "aws_buy_stock (exact_runtime sample_rows) (Some (''bob@example.org'', ''bob''))
     (aws_one_user 100000) ''DOGE'' [''quantity'' \<mapsto> ''1'']
   = (Some (''bob@example.org'', ''bob''), aws_one_user 100000, Raise KeyError)"
  by (simp add: aws_buy_stock_def eval_defs)

subsection \<open>What a sale changes\<close>

text \<open>
  \<^verbatim>\<open>portfolio.remove(holding)\<close> compares with \<^verbatim>\<open>==\<close>, so it deletes the first record
  equal to the holding.  That record is the holding itself: every record before it
  differs from it in the user or the company.
\<close>

lemma remove1_update_first:
  "j < length xs \<Longrightarrow> \<forall>k<j. xs ! k \<noteq> h \<Longrightarrow> remove1 h (xs[j := h]) = take j xs @ drop (Suc j) xs"
proof (induction xs arbitrary: j)
  case Nil
  then show ?case by simp
next
  case (Cons x xs)
  show ?case
  proof (cases j)
    case 0
    then show ?thesis by simp
  next
    case (Suc n)
    with Cons.prems have "x \<noteq> h" "n < length xs" "\<forall>k<n. xs ! k \<noteq> h"
      by auto
    with Cons.IH [of n] Suc show ?thesis by simp
  qed
qed

lemma remove_sold_out:
  assumes j: "first_index (\<lambda>p. user p = username \<and> company p = co) ps = Some j"
  shows "remove1 ((ps ! j)\<lparr>quantity := n\<rparr>) (ps[j := (ps ! j)\<lparr>quantity := n\<rparr>])
           = take j ps @ drop (Suc j) ps"
proof -
  from first_index_Some [OF j]
  have lt: "j < length ps" and at: "user (ps ! j) = username" "company (ps ! j) = co"
    and before: "\<forall>k<j. \<not> (user (ps ! k) = username \<and> company (ps ! k) = co)"
    by auto
  have "\<forall>k<j. ps ! k \<noteq> (ps ! j)\<lparr>quantity := n\<rparr>"
  proof (intro allI impI notI)
    fix k assume "k < j" and eq: "ps ! k = (ps ! j)\<lparr>quantity := n\<rparr>"
    from eq at have "user (ps ! k) = username \<and> company (ps ! k) = co" by simp
    with before \<open>k < j\<close> show False by blast
  qed
  with lt show ?thesis by (rule remove1_update_first)
qed

text \<open>The effect of a sale that goes through, read off the route.\<close>

lemma sell_stock_sold:
  assumes sold: "sell_stock rt sess st co frm =
      (sess', st', Redirect To_portfolio_page (Some Stock_sold))"
  shows "\<exists>username i j q sell_price proceeds.
     sess = Some username \<and> sess' = sess \<and>
     Option.bind (frm ''quantity'') (py_int rt) = Some q \<and>
     Option.bind (frm ''sell_price'') (py_float rt) = Some sell_price \<and>
     num_mul rt q sell_price = Some proceeds \<and>
     get_user sess (users st) = Some i \<and>
     first_index (\<lambda>p. user p = username \<and> company p = co) (portfolio st) = Some j \<and>
     users st' =
       (users st)[i := (users st ! i)\<lparr>balance := num_add rt (balance (users st ! i)) proceeds\<rparr>] \<and>
     watchlists st' = watchlists st \<and>
     portfolio st' =
       (if quantity (portfolio st ! j) = q
        then take j (portfolio st) @ drop (Suc j) (portfolio st)
        else (portfolio st)[j := (portfolio st ! j)\<lparr>quantity := quantity (portfolio st ! j) - q\<rparr>]) \<and>
     \<not> quantity (portfolio st ! j) < q"
proof -
  from sold obtain username where sess: "sess = Some username"
    by (cases sess) (auto simp: sell_stock_def)
  from sold sess obtain qs where qs: "frm ''quantity'' = Some qs"
    by (cases "frm ''quantity''") (auto simp: sell_stock_def)
  from sold sess qs obtain q where q: "py_int rt qs = Some q"
    by (cases "py_int rt qs") (auto simp: sell_stock_def)
  from sold sess qs q obtain ps where ps: "frm ''sell_price'' = Some ps"
    by (cases "frm ''sell_price''") (auto simp: sell_stock_def)
  from sold sess qs q ps obtain sp where sp: "py_float rt ps = Some sp"
    by (cases "py_float rt ps") (auto simp: sell_stock_def)
  from sold sess qs q ps sp obtain j
    where j: "first_index (\<lambda>p. user p = username \<and> company p = co) (portfolio st) = Some j"
    by (cases "first_index (\<lambda>p. user p = username \<and> company p = co) (portfolio st)")
       (auto simp: sell_stock_def)
  from sold sess qs q ps sp j have enough: "\<not> quantity (portfolio st ! j) < q"
    by (auto simp: sell_stock_def split: if_splits)
  from sold sess qs q ps sp j enough obtain i where i: "get_user sess (users st) = Some i"
    by (cases "get_user (Some username) (users st)") (auto simp: sell_stock_def)
  from sold sess qs q ps sp j enough i obtain proceeds
    where pr: "num_mul rt q sp = Some proceeds"
    by (cases "num_mul rt q sp") (auto simp: sell_stock_def)
  let ?h = "(portfolio st ! j)\<lparr>quantity := quantity (portfolio st ! j) - q\<rparr>"
  from sold sess qs q ps sp j enough i pr
  have st': "st' = st\<lparr>users := (users st)[i := (users st ! i)
                 \<lparr>balance := num_add rt (balance (users st ! i)) proceeds\<rparr>],
               portfolio := (if quantity ?h = 0 then remove1 ?h ((portfolio st)[j := ?h])
                             else (portfolio st)[j := ?h])\<rparr>"
    and sess': "sess' = sess"
    by (auto simp: sell_stock_def Let_def)
  have "portfolio st' =
       (if quantity (portfolio st ! j) = q
        then take j (portfolio st) @ drop (Suc j) (portfolio st)
        else (portfolio st)[j := ?h])"
    using st' by (simp add: remove_sold_out [OF j])
  with sess sess' qs q ps sp pr i j st' enough show ?thesis
    by (intro exI [of _ username] exI [of _ i] exI [of _ j] exI [of _ q] exI [of _ sp]
          exI [of _ proceeds]) simp
qed

text \<open>
  C9.  When \<^verbatim>\<open>sell_stock\<close> answers "Stock sold successfully", the session is the one
  it was given; the users are the old list with one element changed, the user the
  session resolves to, and of that element only the balance, which has the proceeds
  \<^verbatim>\<open>sell_price * qty\<close> added; the watchlists are unchanged; and the portfolio is the
  old list with the first record of this user and company either deleted, when its
  quantity equals the quantity sold, or its quantity reduced by the quantity sold and
  nothing else changed.  So the price paid, every other holding, every other user and
  all watchlists are as before.  "That user" is the one \<^verbatim>\<open>get_user()\<close> returns: the
  first user whose name is the name in the session.
\<close>

theorem sell_frame:
  assumes sold: "sell_stock rt sess st co frm =
      (sess', st', Redirect To_portfolio_page (Some Stock_sold))"
  shows "\<exists>username i j q sell_price proceeds.
     sess = Some username \<and> sess' = sess \<and>
     Option.bind (frm ''quantity'') (py_int rt) = Some q \<and>
     Option.bind (frm ''sell_price'') (py_float rt) = Some sell_price \<and>
     num_mul rt q sell_price = Some proceeds \<and>
     get_user sess (users st) = Some i \<and>
     first_index (\<lambda>p. user p = username \<and> company p = co) (portfolio st) = Some j \<and>
     users st' =
       (users st)[i := (users st ! i)\<lparr>balance := num_add rt (balance (users st ! i)) proceeds\<rparr>] \<and>
     watchlists st' = watchlists st \<and>
     portfolio st' =
       (if quantity (portfolio st ! j) = q
        then take j (portfolio st) @ drop (Suc j) (portfolio st)
        else (portfolio st)[j := (portfolio st ! j)\<lparr>quantity := quantity (portfolio st ! j) - q\<rparr>])"
  using sell_stock_sold [OF sold] by blast

theorem sell_frame_witness:
  "sell_stock (exact_runtime sample_rows) (Some ''bob'')
     (one_user 98500 [\<lparr>user = ''bob'', company = ''Apple'', quantity = 10, buy_price = 150\<rparr>])
     ''Apple'' [''quantity'' \<mapsto> ''4'', ''sell_price'' \<mapsto> ''160'']
   = (Some ''bob'',
      one_user 99140 [\<lparr>user = ''bob'', company = ''Apple'', quantity = 6, buy_price = 150\<rparr>],
      Redirect To_portfolio_page (Some Stock_sold)) \<and>
   (\<exists>i j proceeds.
      users (one_user 99140
          [\<lparr>user = ''bob'', company = ''Apple'', quantity = 6, buy_price = 150\<rparr>]) =
        (users (one_user 98500
          [\<lparr>user = ''bob'', company = ''Apple'', quantity = 10, buy_price = 150\<rparr>]))
        [i := (users (one_user 98500
          [\<lparr>user = ''bob'', company = ''Apple'', quantity = 10, buy_price = 150\<rparr>]) ! i)
            \<lparr>balance := num_add (exact_runtime sample_rows) (balance (users (one_user 98500
          [\<lparr>user = ''bob'', company = ''Apple'', quantity = 10, buy_price = 150\<rparr>]) ! i))
              proceeds\<rparr>] \<and>
      first_index (\<lambda>p. user p = ''bob'' \<and> company p = ''Apple'')
        (portfolio (one_user 98500
          [\<lparr>user = ''bob'', company = ''Apple'', quantity = 10, buy_price = 150\<rparr>])) = Some j)"
proof -
  have sold: "sell_stock (exact_runtime sample_rows) (Some ''bob'')
     (one_user 98500 [\<lparr>user = ''bob'', company = ''Apple'', quantity = 10, buy_price = 150\<rparr>])
     ''Apple'' [''quantity'' \<mapsto> ''4'', ''sell_price'' \<mapsto> ''160'']
   = (Some ''bob'',
      one_user 99140 [\<lparr>user = ''bob'', company = ''Apple'', quantity = 6, buy_price = 150\<rparr>],
      Redirect To_portfolio_page (Some Stock_sold))"
    by (simp add: sell_stock_def eval_defs)
  from sell_frame [OF sold] sold show ?thesis by blast
qed

subsection \<open>Holdings with a positive quantity\<close>

text \<open>
  The routes other than the two trades leave the portfolio alone.  A buy appends a
  holding with the quantity asked for; a sale reduces a quantity by no more than it
  is, and deletes the record when nothing is left.
\<close>

lemma signup_portfolio: "portfolio (fst (snd (signup rt sess st meth frm))) = portfolio st"
  by (auto simp: signup_def split: option.splits)

lemma login_store: "fst (snd (login rt sess st meth frm)) = st"
  by (auto simp: login_def split: option.splits)

lemma logout_store: "fst (snd (logout sess st)) = st"
  by (simp add: logout_def)

lemma add_to_watchlist_portfolio:
  "portfolio (fst (snd (add_to_watchlist sess st co))) = portfolio st"
  by (auto simp: add_to_watchlist_def split: option.splits)

lemma add_to_watchlist_users:
  "users (fst (snd (add_to_watchlist sess st co))) = users st"
  by (auto simp: add_to_watchlist_def split: option.splits)

lemma portfolio_page_store: "fst (snd (portfolio_page rt sess st)) = st"
  by (auto simp: portfolio_page_def Let_def split: option.splits)

lemma buy_stock_all_positive:
  assumes "all_positive st" and "buys_positive rt (Buy co frm)"
  shows "all_positive (fst (snd (buy_stock rt sess st co frm)))"
proof -
  obtain sess' st' resp where r: "buy_stock rt sess st co frm = (sess', st', resp)"
    by (cases "buy_stock rt sess st co frm") auto
  from buy_stock_cases [OF r] assms show ?thesis
    unfolding r by (auto simp: all_positive_def)
qed

lemma sell_stock_all_positive:
  assumes pos: "all_positive st"
  shows "all_positive (fst (snd (sell_stock rt sess st co frm)))"
proof -
  obtain sess' st' resp where r: "sell_stock rt sess st co frm = (sess', st', resp)"
    by (cases "sell_stock rt sess st co frm") auto
  from sell_stock_cases [OF r] show ?thesis
  proof
    assume "st' = st"
    with pos r show ?thesis by simp
  next
    assume "resp = Redirect To_portfolio_page (Some Stock_sold)"
    with r have "sell_stock rt sess st co frm =
        (sess', st', Redirect To_portfolio_page (Some Stock_sold))" by simp
    from sell_stock_sold [OF this] obtain username j q where
      j: "first_index (\<lambda>p. user p = username \<and> company p = co) (portfolio st) = Some j"
      and p': "portfolio st' =
       (if quantity (portfolio st ! j) = q
        then take j (portfolio st) @ drop (Suc j) (portfolio st)
        else (portfolio st)[j := (portfolio st ! j)\<lparr>quantity := quantity (portfolio st ! j) - q\<rparr>])"
      and enough: "\<not> quantity (portfolio st ! j) < q"
      by blast
    from pos have all: "list_all (\<lambda>p. 0 < quantity p) (portfolio st)"
      by (simp add: all_positive_def)
    have "list_all (\<lambda>p. 0 < quantity p) (portfolio st')"
    proof (cases "quantity (portfolio st ! j) = q")
      case True
      with p' all show ?thesis
        by (auto simp: list_all_iff dest: in_set_takeD in_set_dropD)
    next
      case False
      with enough have "0 < quantity (portfolio st ! j) - q" by simp
      with p' False all show ?thesis by (simp add: list_all_update)
    qed
    with r show ?thesis by (simp add: all_positive_def)
  qed
qed

lemma route_all_positive:
  "all_positive st \<Longrightarrow> buys_positive rt r \<Longrightarrow> all_positive (fst (snd (route rt sess st r)))"
proof (cases r)
  case (Signup meth frm)
  assume "all_positive st"
  with Signup show ?thesis by (simp add: all_positive_def signup_portfolio)
next
  case (Login meth frm)
  assume "all_positive st"
  with Login show ?thesis by (simp add: login_store)
next
  case Logout
  assume "all_positive st"
  with Logout show ?thesis by (simp add: logout_store)
next
  case (Buy co frm)
  assume "all_positive st" "buys_positive rt r"
  with Buy show ?thesis by (simp add: buy_stock_all_positive del: buys_positive.simps)
next
  case (Sell co frm)
  assume "all_positive st"
  with Sell show ?thesis by (simp add: sell_stock_all_positive)
next
  case (Add_to_watchlist co)
  assume "all_positive st"
  with Add_to_watchlist show ?thesis by (simp add: all_positive_def add_to_watchlist_portfolio)
next
  case Portfolio
  assume "all_positive st"
  with Portfolio show ?thesis by (simp add: portfolio_page_store)
qed

lemma run_all_positive:
  "all_positive st \<Longrightarrow> list_all (\<lambda>(sess, r). buys_positive rt r) rs \<Longrightarrow>
   all_positive (run rt st rs)"
proof (induction rs arbitrary: st)
  case Nil
  then show ?case by simp
next
  case (Cons a rs)
  obtain sess r where a: "a = (sess, r)" by (cases a)
  from Cons.prems a have "all_positive (fst (snd (route rt sess st r)))"
    by (simp add: route_all_positive)
  with Cons.IH Cons.prems a show ?case by simp
qed

text \<open>The two requests that open the concrete runs.\<close>

lemma sign_in_run:
  "run (exact_runtime sample_rows) empty_store sign_in = one_user 100000 []"
  by (simp add: signup_def login_def eval_defs)

text \<open>
  C2, as the code has it.  The claim fails for a buy of zero or fewer shares, which
  \<^verbatim>\<open>buy_stock\<close> accepts: after \<open>bob\<close> has signed up, logged in and bought \<^verbatim>\<open>0\<close>
  shares of Apple, the portfolio lists a holding of quantity 0.
\<close>

theorem zero_quantity_holding:
  "fst (login (exact_runtime sample_rows) None (one_user 100000 []) POST bob_form) = Some ''bob'' \<and>
   run (exact_runtime sample_rows) empty_store
     (sign_in @ [(Some ''bob'', Buy ''Apple'' [''quantity'' \<mapsto> ''0''])])
   = one_user 100000 [\<lparr>user = ''bob'', company = ''Apple'', quantity = 0, buy_price = 150\<rparr>] \<and>
   \<not> all_positive (run (exact_runtime sample_rows) empty_store
     (sign_in @ [(Some ''bob'', Buy ''Apple'' [''quantity'' \<mapsto> ''0''])]))"
  by (simp add: signup_def login_def buy_stock_def all_positive_def eval_defs)

text \<open>
  C2, amended.  In a run in which every buy whose quantity parses asks for a positive
  number of shares, every holding of the portfolio has a positive quantity after the
  run if it had before it; the sells of the run may ask for any quantity.  And a sale
  of exactly the quantity of the holding it finds leaves the portfolio without that
  record.
\<close>

theorem holdings_stay_positive:
  "(all_positive st \<and> list_all (\<lambda>(sess, r). buys_positive rt r) rs
    \<longrightarrow> all_positive (run rt st rs))
   \<and>
   (sell_stock rt sess st co frm = (sess', st', Redirect To_portfolio_page (Some Stock_sold)) \<and>
    sess = Some username \<and>
    first_index (\<lambda>p. user p = username \<and> company p = co) (portfolio st) = Some j \<and>
    Option.bind (frm ''quantity'') (py_int rt) = Some (quantity (portfolio st ! j))
    \<longrightarrow> portfolio st' = take j (portfolio st) @ drop (Suc j) (portfolio st))"
proof (intro conjI impI)
  assume "all_positive st \<and> list_all (\<lambda>(sess, r). buys_positive rt r) rs"
  then show "all_positive (run rt st rs)" by (simp add: run_all_positive)
next
  assume a: "sell_stock rt sess st co frm =
      (sess', st', Redirect To_portfolio_page (Some Stock_sold)) \<and>
    sess = Some username \<and>
    first_index (\<lambda>p. user p = username \<and> company p = co) (portfolio st) = Some j \<and>
    Option.bind (frm ''quantity'') (py_int rt) = Some (quantity (portfolio st ! j))"
  then have "sell_stock rt sess st co frm =
      (sess', st', Redirect To_portfolio_page (Some Stock_sold))" by blast
  from sell_stock_sold [OF this] a
  show "portfolio st' = take j (portfolio st) @ drop (Suc j) (portfolio st)"
    by auto
qed

theorem holdings_stay_positive_witness:
  "all_positive (empty_store :: rat store) \<and>
   list_all (\<lambda>(sess, r). buys_positive (exact_runtime sample_rows) r)
     (sign_in @ [(Some ''bob'', Buy ''Apple'' [''quantity'' \<mapsto> ''10'']),
        (Some ''bob'', Sell ''Apple'' [''quantity'' \<mapsto> ''4'', ''sell_price'' \<mapsto> ''160''])]) \<and>
   run (exact_runtime sample_rows) empty_store
     (sign_in @ [(Some ''bob'', Buy ''Apple'' [''quantity'' \<mapsto> ''10'']),
        (Some ''bob'', Sell ''Apple'' [''quantity'' \<mapsto> ''4'', ''sell_price'' \<mapsto> ''160''])])
     = one_user 99140 [\<lparr>user = ''bob'', company = ''Apple'', quantity = 6, buy_price = 150\<rparr>] \<and>
   all_positive (run (exact_runtime sample_rows) empty_store
     (sign_in @ [(Some ''bob'', Buy ''Apple'' [''quantity'' \<mapsto> ''10'']),
        (Some ''bob'', Sell ''Apple'' [''quantity'' \<mapsto> ''4'', ''sell_price'' \<mapsto> ''160''])])) \<and>
   sell_stock (exact_runtime sample_rows) (Some ''bob'')
     (one_user 98500 [\<lparr>user = ''bob'', company = ''Apple'', quantity = 10, buy_price = 150\<rparr>])
     ''Apple'' [''quantity'' \<mapsto> ''10'', ''sell_price'' \<mapsto> ''160'']
     = (Some ''bob'', one_user 100100 [], Redirect To_portfolio_page (Some Stock_sold)) \<and>
   first_index (\<lambda>p. user p = ''bob'' \<and> company p = ''Apple'')
     (portfolio (one_user 98500
        [\<lparr>user = ''bob'', company = ''Apple'', quantity = 10, buy_price = 150\<rparr>])) = Some 0 \<and>
   portfolio (one_user 100100 []) =
     take 0 (portfolio (one_user 98500
        [\<lparr>user = ''bob'', company = ''Apple'', quantity = 10, buy_price = 150\<rparr>])) @
     drop (Suc 0) (portfolio (one_user 98500
        [\<lparr>user = ''bob'', company = ''Apple'', quantity = 10, buy_price = 150\<rparr>]))"
  using holdings_stay_positive
    [where st = "empty_store :: rat store" and rt = "exact_runtime sample_rows"
       and rs = "sign_in @ [(Some ''bob'', Buy ''Apple'' [''quantity'' \<mapsto> ''10'']),
        (Some ''bob'', Sell ''Apple'' [''quantity'' \<mapsto> ''4'', ''sell_price'' \<mapsto> ''160''])]"]
    holdings_stay_positive
    [where rt = "exact_runtime sample_rows" and sess = "Some ''bob''" and username = "''bob''"
       and st = "one_user 98500
         [\<lparr>user = ''bob'', company = ''Apple'', quantity = 10, buy_price = 150\<rparr>]"
       and co = "''Apple''" and frm = "[''quantity'' \<mapsto> ''10'', ''sell_price'' \<mapsto> ''160'']"
       and sess' = "Some ''bob''" and st' = "one_user 100100 []" and j = 0]
  by (simp add: signup_def login_def buy_stock_def sell_stock_def all_positive_def eval_defs)

subsection \<open>Balances that are not negative\<close>

text \<open>
  The balance is assigned in three places: a signup starts it at 100000, a buy
  subtracts a cost that the balance is not below, a sale adds its proceeds.
\<close>

lemma signup_solvent:
  assumes "solvent rt st" and "\<not> negative rt (num_of_int rt 100000)"
  shows "solvent rt (fst (snd (signup rt sess st meth frm)))"
  using assms by (auto simp: signup_def solvent_def split: option.splits)

lemma add_to_watchlist_solvent:
  "solvent rt st \<Longrightarrow> solvent rt (fst (snd (add_to_watchlist sess st co)))"
  by (simp add: solvent_def add_to_watchlist_users)

lemma solvent_nth:
  "solvent rt st \<Longrightarrow> i < length (users st) \<Longrightarrow> \<not> negative rt (balance (users st ! i))"
  by (simp add: solvent_def list_all_length)

lemma buy_stock_solvent:
  assumes solv: "solvent rt st"
    and sub: "\<And>b c. \<not> num_lt rt b c \<Longrightarrow> \<not> negative rt (num_sub rt b c)"
  shows "solvent rt (fst (snd (buy_stock rt sess st co frm)))"
proof -
  obtain sess' st' resp where r: "buy_stock rt sess st co frm = (sess', st', resp)"
    by (cases "buy_stock rt sess st co frm") auto
  from buy_stock_cases [OF r] show ?thesis
  proof
    assume "st' = st"
    with solv r show ?thesis by simp
  next
    assume "\<exists>username i qty stock total_cost.
       sess = Some username \<and> get_user sess (users st) = Some i \<and>
       Option.bind (frm ''quantity'') (py_int rt) = Some qty \<and>
       find (\<lambda>s. s_company s = co) (load_latest_prices rt) = Some stock \<and>
       num_mul rt qty (price stock) = Some total_cost \<and>
       \<not> num_lt rt (balance (users st ! i)) total_cost \<and>
       resp = Redirect To_portfolio_page (Some (Bought qty co)) \<and> sess' = sess \<and>
       st' = st\<lparr>users := (users st)[i := (users st ! i)
                   \<lparr>balance := num_sub rt (balance (users st ! i)) total_cost\<rparr>],
                 portfolio := portfolio st @
                   [\<lparr>user = username, company = co, quantity = qty,
                     buy_price = price stock\<rparr>]\<rparr>"
    then obtain i total_cost where
      paid: "\<not> num_lt rt (balance (users st ! i)) total_cost"
      and u': "users st' = (users st)[i := (users st ! i)
                   \<lparr>balance := num_sub rt (balance (users st ! i)) total_cost\<rparr>]"
      by auto
    from sub [OF paid] solv have "list_all (\<lambda>u. \<not> negative rt (balance u)) (users st')"
      unfolding u' by (intro list_all_update) (simp_all add: solvent_def)
    with r show ?thesis by (simp add: solvent_def)
  qed
qed

lemma sell_stock_solvent:
  assumes solv: "solvent rt st"
    and add: "\<And>b p. \<not> negative rt b \<Longrightarrow> \<not> negative rt p \<Longrightarrow> \<not> negative rt (num_add rt b p)"
    and ok: "proceeds_not_negative rt (Sell co frm)"
  shows "solvent rt (fst (snd (sell_stock rt sess st co frm)))"
proof -
  obtain sess' st' resp where r: "sell_stock rt sess st co frm = (sess', st', resp)"
    by (cases "sell_stock rt sess st co frm") auto
  from sell_stock_cases [OF r] show ?thesis
  proof
    assume "st' = st"
    with solv r show ?thesis by simp
  next
    assume "resp = Redirect To_portfolio_page (Some Stock_sold)"
    with r have "sell_stock rt sess st co frm =
        (sess', st', Redirect To_portfolio_page (Some Stock_sold))" by simp
    from sell_stock_sold [OF this] obtain i q sell_price proceeds where
      q: "Option.bind (frm ''quantity'') (py_int rt) = Some q"
      and sp: "Option.bind (frm ''sell_price'') (py_float rt) = Some sell_price"
      and pr: "num_mul rt q sell_price = Some proceeds"
      and i: "get_user sess (users st) = Some i"
      and u': "users st' = (users st)[i := (users st ! i)
                 \<lparr>balance := num_add rt (balance (users st ! i)) proceeds\<rparr>]"
      by blast
    from ok q sp pr have "\<not> negative rt proceeds" by simp
    moreover from solv get_user_Some [OF i] have "\<not> negative rt (balance (users st ! i))"
      by (rule solvent_nth)
    ultimately have "\<not> negative rt (num_add rt (balance (users st ! i)) proceeds)"
      by (intro add)
    with solv have "list_all (\<lambda>u. \<not> negative rt (balance u)) (users st')"
      unfolding u' by (intro list_all_update) (simp_all add: solvent_def)
    with r show ?thesis by (simp add: solvent_def)
  qed
qed

lemma route_solvent:
  assumes solv: "solvent rt st"
    and sub: "\<And>b c. \<not> num_lt rt b c \<Longrightarrow> \<not> negative rt (num_sub rt b c)"
    and add: "\<And>b p. \<not> negative rt b \<Longrightarrow> \<not> negative rt p \<Longrightarrow> \<not> negative rt (num_add rt b p)"
    and start: "\<not> negative rt (num_of_int rt 100000)"
    and ok: "proceeds_not_negative rt r"
  shows "solvent rt (fst (snd (route rt sess st r)))"
proof (cases r)
  case (Signup meth frm)
  with solv start show ?thesis by (simp add: signup_solvent)
next
  case (Login meth frm)
  with solv show ?thesis by (simp add: login_store)
next
  case Logout
  with solv show ?thesis by (simp add: logout_store)
next
  case (Buy co frm)
  with solv sub show ?thesis by (simp add: buy_stock_solvent)
next
  case (Sell co frm)
  with solv add ok show ?thesis by (simp add: sell_stock_solvent del: proceeds_not_negative.simps)
next
  case (Add_to_watchlist co)
  with solv show ?thesis by (simp add: add_to_watchlist_solvent)
next
  case Portfolio
  with solv show ?thesis by (simp add: portfolio_page_store)
qed

lemma run_solvent:
  assumes sub: "\<And>b c. \<not> num_lt rt b c \<Longrightarrow> \<not> negative rt (num_sub rt b c)"
    and add: "\<And>b p. \<not> negative rt b \<Longrightarrow> \<not> negative rt p \<Longrightarrow> \<not> negative rt (num_add rt b p)"
    and start: "\<not> negative rt (num_of_int rt 100000)"
  shows "solvent rt st \<Longrightarrow> list_all (\<lambda>(sess, r). proceeds_not_negative rt r) rs \<Longrightarrow>
    solvent rt (run rt st rs)"
proof (induction rs arbitrary: st)
  case Nil
  then show ?case by simp
next
  case (Cons a rs)
  obtain sess r where a: "a = (sess, r)" by (cases a)
  from Cons.prems a have "solvent rt (fst (snd (route rt sess st r)))"
    by (intro route_solvent sub add start) simp_all
  with Cons.IH Cons.prems a show ?case by simp
qed




text \<open>
  The arithmetic of doubles meets the three conditions: rounding a rational that is not
  negative gives a double that is not negative.  So the invariant holds for
  \<^verbatim>\<open>app.py\<close> as it computes.
\<close>

lemma pow2_pos: "0 < pow2 k"
  by (simp add: pow2_def)

lemma round_half_even_nonneg: "0 \<le> x \<Longrightarrow> 0 \<le> round_half_even x"
proof -
  assume "0 \<le> x"
  then have "0 \<le> \<lfloor>x\<rfloor>" by simp
  then show ?thesis by (simp add: round_half_even_def Let_def)
qed

lemma to_double_nonneg: "0 \<le> x \<Longrightarrow> 0 \<le> to_double x"
proof (cases "x = 0")
  case True
  then show ?thesis by (simp add: to_double_def)
next
  case False
  assume "0 \<le> x"
  with False have pos: "0 < x" by simp
  let ?e = "max (ilog2 \<bar>x\<bar> - 52) (- 1074)"
  from pos pow2_pos [of ?e] have "0 \<le> \<bar>x\<bar> / pow2 ?e" by simp
  then have "0 \<le> round_half_even (\<bar>x\<bar> / pow2 ?e)" by (rule round_half_even_nonneg)
  then have "0 \<le> (of_int (round_half_even (\<bar>x\<bar> / pow2 ?e)) :: rat) * pow2 ?e"
    using pow2_pos [of ?e] by simp
  with pos False show ?thesis by (simp add: to_double_def Let_def)
qed

lemma double_run_solvent:
  assumes "solvent (double_runtime rows) st"
    and "list_all (\<lambda>(sess, r). proceeds_not_negative (double_runtime rows) r) rs"
  shows "solvent (double_runtime rows) (run (double_runtime rows) st rs)"
proof (rule run_solvent [OF _ _ _ assms])
  fix b c :: rat
  assume "\<not> num_lt (double_runtime rows) b c"
  then have "0 \<le> b - c" by (simp add: double_runtime_def)
  then have "0 \<le> to_double (b - c)" by (rule to_double_nonneg)
  then show "\<not> negative (double_runtime rows) (num_sub (double_runtime rows) b c)"
    by (simp add: negative_def double_runtime_def to_double_def)
next
  fix b p :: rat
  assume "\<not> negative (double_runtime rows) b" "\<not> negative (double_runtime rows) p"
  then have "0 \<le> b + p" by (simp add: negative_def double_runtime_def to_double_def)
  then have "0 \<le> to_double (b + p)" by (rule to_double_nonneg)
  then show "\<not> negative (double_runtime rows) (num_add (double_runtime rows) b p)"
    by (simp add: negative_def double_runtime_def to_double_def)
next
  have "(0::rat) \<le> to_double 100000" by (rule to_double_nonneg) simp
  then show "\<not> negative (double_runtime rows) (num_of_int (double_runtime rows) 100000)"
    by (simp add: negative_def double_runtime_def to_double_def)
qed

subsection \<open>A quantity that does not parse\<close>

text \<open>
  C6, as the code has it.  The claim fails for a quantity that parses to zero or to a
  negative integer: no route compares the quantity with zero.  A buy of \<^verbatim>\<open>-5\<close>
  shares of Apple at 150 goes through, adds 750 to the balance and appends a holding
  of quantity \<open>-5\<close>.
\<close>

theorem negative_quantity_accepted:
  "buy_stock (exact_runtime sample_rows) (Some ''bob'') (one_user 100000 []) ''Apple''
     [''quantity'' \<mapsto> ''-5'']
   = (Some ''bob'',
      one_user 100750 [\<lparr>user = ''bob'', company = ''Apple'', quantity = - 5, buy_price = 150\<rparr>],
      Redirect To_portfolio_page (Some (Bought (- 5) ''Apple'')))"
  by (simp add: buy_stock_def eval_defs)

text \<open>
  C6, amended.  When the quantity field is missing or \<^verbatim>\<open>int()\<close> refuses it,
  \<^verbatim>\<open>buy_stock\<close> of \<^verbatim>\<open>app.py\<close> answers a logged-in account with "Invalid quantity",
  and \<^verbatim>\<open>buy_stock\<close> and \<^verbatim>\<open>sell_stock\<close> of \<^verbatim>\<open>app.py\<close> and \<^verbatim>\<open>buy_stock\<close> of
  \<^verbatim>\<open>app_aws.py\<close> return the store they were given: no balance and no holding is
  changed.
\<close>

theorem unparsable_quantity:
  "Option.bind (frm ''quantity'') (py_int rt) = None \<longrightarrow>
     (get_user sess (users st) = Some i \<longrightarrow>
        buy_stock rt sess st co frm = (sess, st, Redirect To_dashboard (Some Invalid_quantity))) \<and>
     fst (snd (buy_stock rt sess st co frm)) = st \<and>
     fst (snd (sell_stock rt sess st co frm)) = st \<and>
     fst (snd (aws_buy_stock rt asess ast co frm)) = ast"
  by (cases sess; cases "frm ''quantity''")
     (auto simp: buy_stock_def sell_stock_def aws_buy_stock_def get_user_def
        split: option.splits prod.splits)

theorem unparsable_quantity_witness:
  "Option.bind ([''quantity'' \<mapsto> ''ten'', ''sell_price'' \<mapsto> ''160''] ''quantity'')
     (py_int (exact_runtime sample_rows)) = None \<and>
   get_user (Some ''bob'') (users (one_user 100000 [])) = Some 0 \<and>
   buy_stock (exact_runtime sample_rows) (Some ''bob'') (one_user 100000 []) ''Apple''
     [''quantity'' \<mapsto> ''ten'', ''sell_price'' \<mapsto> ''160'']
     = (Some ''bob'', one_user 100000 [], Redirect To_dashboard (Some Invalid_quantity)) \<and>
   sell_stock (exact_runtime sample_rows) (Some ''bob'') (one_user 100000 []) ''Apple''
     [''quantity'' \<mapsto> ''ten'', ''sell_price'' \<mapsto> ''160'']
     = (Some ''bob'', one_user 100000 [], Raise ValueError) \<and>
   aws_buy_stock (exact_runtime sample_rows) (Some (''bob@example.org'', ''bob''))
     (aws_one_user 100000) ''Apple'' [''quantity'' \<mapsto> ''ten'', ''sell_price'' \<mapsto> ''160'']
     = (Some (''bob@example.org'', ''bob''), aws_one_user 100000, Raise ValueError)"
  using unparsable_quantity
    [where frm = "[''quantity'' \<mapsto> ''ten'', ''sell_price'' \<mapsto> ''160'']"
       and rt = "exact_runtime sample_rows" and sess = "Some ''bob''"
       and st = "one_user 100000 []" and i = 0 and co = "''Apple''"
       and asess = "Some (''bob@example.org'', ''bob'')" and ast = "aws_one_user 100000"]
  by (simp add: buy_stock_def sell_stock_def aws_buy_stock_def eval_defs)

subsection \<open>Buying a company that is already held\<close>

text \<open>
  C3, as the code has it.  The claim fails: no route merges holdings.  \<open>bob\<close> holds 10
  shares of Apple bought at 150 and buys 5 more at 160; the portfolio then lists two
  records, 10 at 150 and 5 at 160, not one record with 15 shares at the average price.
\<close>

theorem second_buy_not_merged:
  "buy_stock (exact_runtime (\<lambda>file. (160, ''2024-01-03''))) (Some ''bob'')
     (one_user 98500 [\<lparr>user = ''bob'', company = ''Apple'', quantity = 10, buy_price = 150\<rparr>])
     ''Apple'' [''quantity'' \<mapsto> ''5'']
   = (Some ''bob'',
      one_user 97700
        [\<lparr>user = ''bob'', company = ''Apple'', quantity = 10, buy_price = 150\<rparr>,
         \<lparr>user = ''bob'', company = ''Apple'', quantity = 5, buy_price = 160\<rparr>],
      Redirect To_portfolio_page (Some (Bought 5 ''Apple''))) \<and>
   portfolio (fst (snd (buy_stock (exact_runtime (\<lambda>file. (160, ''2024-01-03''))) (Some ''bob'')
     (one_user 98500 [\<lparr>user = ''bob'', company = ''Apple'', quantity = 10, buy_price = 150\<rparr>])
     ''Apple'' [''quantity'' \<mapsto> ''5''])))
   \<noteq> [\<lparr>user = ''bob'', company = ''Apple'', quantity = 15,
        buy_price = (10 * 150 + 5 * 160) / 15\<rparr>]"
  by (simp add: buy_stock_def eval_defs)

text \<open>
  C3, amended.  When \<^verbatim>\<open>buy_stock\<close> of \<^verbatim>\<open>app.py\<close> answers "Bought \<open>q\<close> shares of
  \<open>co\<close>", the portfolio is the old portfolio with one record appended: the user of the
  session, the company, the quantity \<open>q\<close> and the latest price of the company.  The
  records that were there, those of the same user and company among them, are
  unchanged.
\<close>

theorem buy_appends_holding:
  assumes "buy_stock rt sess st co frm =
      (sess', st', Redirect To_portfolio_page (Some (Bought q co)))"
  shows "\<exists>username file. sess = Some username \<and> map_of COMPANIES co = Some file \<and>
     portfolio st' = portfolio st @
       [\<lparr>user = username, company = co, quantity = q, buy_price = fst (latest rt file)\<rparr>]"
  using assms
  by (auto simp: buy_stock_def find_price split: option.splits if_splits)

theorem buy_appends_holding_witness:
  "buy_stock (exact_runtime (\<lambda>file. (160, ''2024-01-03''))) (Some ''bob'')
     (one_user 98500 [\<lparr>user = ''bob'', company = ''Apple'', quantity = 10, buy_price = 150\<rparr>])
     ''Apple'' [''quantity'' \<mapsto> ''5'']
   = (Some ''bob'',
      one_user 97700
        [\<lparr>user = ''bob'', company = ''Apple'', quantity = 10, buy_price = 150\<rparr>,
         \<lparr>user = ''bob'', company = ''Apple'', quantity = 5, buy_price = 160\<rparr>],
      Redirect To_portfolio_page (Some (Bought 5 ''Apple''))) \<and>
   (\<exists>username file. Some ''bob'' = Some username \<and> map_of COMPANIES ''Apple'' = Some file \<and>
      portfolio (one_user 97700
        [\<lparr>user = ''bob'', company = ''Apple'', quantity = 10, buy_price = 150\<rparr>,
         \<lparr>user = ''bob'', company = ''Apple'', quantity = 5, buy_price = 160\<rparr>]) =
      portfolio (one_user 98500
        [\<lparr>user = ''bob'', company = ''Apple'', quantity = 10, buy_price = 150\<rparr>]) @
        [\<lparr>user = username, company = ''Apple'', quantity = 5,
          buy_price = fst (latest (exact_runtime (\<lambda>file. (160, ''2024-01-03''))) file)\<rparr>])"
proof -
  have bought: "buy_stock (exact_runtime (\<lambda>file. (160, ''2024-01-03''))) (Some ''bob'')
     (one_user 98500 [\<lparr>user = ''bob'', company = ''Apple'', quantity = 10, buy_price = 150\<rparr>])
     ''Apple'' [''quantity'' \<mapsto> ''5'']
   = (Some ''bob'',
      one_user 97700
        [\<lparr>user = ''bob'', company = ''Apple'', quantity = 10, buy_price = 150\<rparr>,
         \<lparr>user = ''bob'', company = ''Apple'', quantity = 5, buy_price = 160\<rparr>],
      Redirect To_portfolio_page (Some (Bought 5 ''Apple'')))"
    by (simp add: buy_stock_def eval_defs)
  from buy_appends_holding [OF bought] bought show ?thesis by blast
qed

subsection \<open>Buying and selling back at the same price\<close>

lemma first_index_update:
  "i < length xs \<Longrightarrow> P x = P (xs ! i) \<Longrightarrow> first_index P (xs[i := x]) = first_index P xs"
proof (induction xs arbitrary: i)
  case Nil
  then show ?case by simp
next
  case (Cons y ys)
  then show ?case by (cases i) auto
qed

lemma get_user_update_balance:
  "get_user sess (us[i := (us ! i)\<lparr>balance := b\<rparr>]) = get_user sess us"
proof (cases "i < length us")
  case True
  then show ?thesis
    by (auto simp: get_user_def first_index_update split: option.splits)
next
  case False
  then show ?thesis by (simp add: list_update_beyond not_less)
qed

text \<open>
  Two doubles as \<open>to_double\<close> gives them, \<^verbatim>\<open>0.1\<close> and \<^verbatim>\<open>323.99\<close>: the fractions
  are what \<^verbatim>\<open>fractions.Fraction(0.1)\<close> and \<^verbatim>\<open>fractions.Fraction(323.99)\<close> print.
\<close>

lemma to_double_tenth: "to_double (1 / 10) = 3602879701896397 / 36028797018963968"
  by code_simp

lemma to_double_apple: "to_double (32399 / 100) = 1424923089132585 / 4398046511104"
  by code_simp

text \<open>
  Three steps in the double runtime, with Google at 48.11 and Apple at 323.99; every
  fraction is the double that CPython computes at that step.
\<close>

lemma double_first_buy:
  "run (double_runtime quoted_rows) empty_store
     (sign_in @ [(Some ''bob'', Buy ''Google'' [''quantity'' \<mapsto> ''1''])])
   = one_user (6868641579574231 / 68719476736)
       [\<lparr>user = ''bob'', company = ''Google'', quantity = 1,
         buy_price = 3385440282387415 / 70368744177664\<rparr>]"
  by code_simp

lemma double_buy:
  "buy_stock (double_runtime quoted_rows) (Some ''bob'')
     (one_user (6868641579574231 / 68719476736)
       [\<lparr>user = ''bob'', company = ''Google'', quantity = 1,
         buy_price = 3385440282387415 / 70368744177664\<rparr>])
     ''Apple'' [''quantity'' \<mapsto> ''7'']
   = (Some ''bob'',
      one_user (3356395308350177 / 34359738368)
       [\<lparr>user = ''bob'', company = ''Google'', quantity = 1,
         buy_price = 3385440282387415 / 70368744177664\<rparr>,
        \<lparr>user = ''bob'', company = ''Apple'', quantity = 7,
         buy_price = 1424923089132585 / 4398046511104\<rparr>],
      Redirect To_portfolio_page (Some (Bought 7 ''Apple'')))"
  by code_simp

lemma double_sell:
  "sell_stock (double_runtime quoted_rows) (Some ''bob'')
     (one_user (3356395308350177 / 34359738368)
       [\<lparr>user = ''bob'', company = ''Google'', quantity = 1,
         buy_price = 3385440282387415 / 70368744177664\<rparr>,
        \<lparr>user = ''bob'', company = ''Apple'', quantity = 7,
         buy_price = 1424923089132585 / 4398046511104\<rparr>])
     ''Apple'' [''quantity'' \<mapsto> ''7'', ''sell_price'' \<mapsto> ''323.99'']
   = (Some ''bob'',
      one_user (3434320789787115 / 34359738368)
       [\<lparr>user = ''bob'', company = ''Google'', quantity = 1,
         buy_price = 3385440282387415 / 70368744177664\<rparr>],
      Redirect To_portfolio_page (Some Stock_sold))"
  by code_simp

text \<open>
  C7, as the code has it.  The balance of \<^verbatim>\<open>app.py\<close> is a \<^verbatim>\<open>float\<close>, and the claim
  fails by the rounding of the subtraction and the addition.  In the double runtime,
  with Google at 48.11 and Apple at 323.99: \<open>bob\<close> signs up, logs in and buys one share
  of Google, which leaves the double 99951.89; he buys 7 shares of Apple, which leaves
  97683.95999999999, and sells them at 323.99, which leaves 99951.88999999998.  The
  fractions below are these doubles.
\<close>

theorem round_trip_rounds:
  "run (double_runtime quoted_rows) empty_store
     (sign_in @ [(Some ''bob'', Buy ''Google'' [''quantity'' \<mapsto> ''1''])])
   = one_user (6868641579574231 / 68719476736)
       [\<lparr>user = ''bob'', company = ''Google'', quantity = 1,
         buy_price = 3385440282387415 / 70368744177664\<rparr>] \<and>
   buy_stock (double_runtime quoted_rows) (Some ''bob'')
     (one_user (6868641579574231 / 68719476736)
       [\<lparr>user = ''bob'', company = ''Google'', quantity = 1,
         buy_price = 3385440282387415 / 70368744177664\<rparr>])
     ''Apple'' [''quantity'' \<mapsto> ''7'']
   = (Some ''bob'',
      one_user (3356395308350177 / 34359738368)
       [\<lparr>user = ''bob'', company = ''Google'', quantity = 1,
         buy_price = 3385440282387415 / 70368744177664\<rparr>,
        \<lparr>user = ''bob'', company = ''Apple'', quantity = 7,
         buy_price = 1424923089132585 / 4398046511104\<rparr>],
      Redirect To_portfolio_page (Some (Bought 7 ''Apple''))) \<and>
   sell_stock (double_runtime quoted_rows) (Some ''bob'')
     (one_user (3356395308350177 / 34359738368)
       [\<lparr>user = ''bob'', company = ''Google'', quantity = 1,
         buy_price = 3385440282387415 / 70368744177664\<rparr>,
        \<lparr>user = ''bob'', company = ''Apple'', quantity = 7,
         buy_price = 1424923089132585 / 4398046511104\<rparr>])
     ''Apple'' [''quantity'' \<mapsto> ''7'', ''sell_price'' \<mapsto> ''323.99'']
   = (Some ''bob'',
      one_user (3434320789787115 / 34359738368)
       [\<lparr>user = ''bob'', company = ''Google'', quantity = 1,
         buy_price = 3385440282387415 / 70368744177664\<rparr>],
      Redirect To_portfolio_page (Some Stock_sold)) \<and>
   (3434320789787115 / 34359738368 :: rat) \<noteq> 6868641579574231 / 68719476736"
  using double_first_buy double_buy double_sell by simp

text \<open>
  C7, amended.  A buy of \<open>q\<close> shares that goes through, followed by a sale of \<open>q\<close>
  shares of the same company at the price the buy paid, leaves every user as before the
  buy but the one who traded, whose balance \<open>b\<close> has become \<open>(b - c) + c\<close>, where \<open>c\<close> is
  \<^verbatim>\<open>qty * price\<close> and the subtraction and the addition are the runtime's.  In exact
  arithmetic that is \<open>b\<close>; in \<^verbatim>\<open>float\<close> arithmetic it is \<open>b\<close> up to the rounding of
  the two operations.
\<close>

theorem buy_then_sell_balance:
  assumes buy: "buy_stock rt sess st co frm =
      (sess1, st1, Redirect To_portfolio_page (Some (Bought q co)))"
    and sell: "sell_stock rt sess1 st1 co frm' =
      (sess2, st2, Redirect To_portfolio_page (Some Stock_sold))"
    and q': "Option.bind (frm' ''quantity'') (py_int rt) = Some q"
    and p: "Option.bind (frm' ''sell_price'') (py_float rt) = Some p"
    and csv: "map_of COMPANIES co = Some file"
    and same: "fst (latest rt file) = p"
  shows "\<exists>i c. get_user sess (users st) = Some i \<and> num_mul rt q p = Some c \<and>
     users st2 = (users st)[i := (users st ! i)
       \<lparr>balance := num_add rt (num_sub rt (balance (users st ! i)) c) c\<rparr>]"
proof -
  from buy_stock_cases [OF buy] buy
  obtain i stock c where i: "get_user sess (users st) = Some i"
    and stock: "find (\<lambda>s. s_company s = co) (load_latest_prices rt) = Some stock"
    and c: "num_mul rt q (price stock) = Some c"
    and sess1: "sess1 = sess"
    and u1: "users st1 = (users st)[i := (users st ! i)
                   \<lparr>balance := num_sub rt (balance (users st ! i)) c\<rparr>]"
    by (auto simp: buy_stock_def split: option.splits if_splits)
  from stock csv same have price: "price stock = p"
    by (auto simp: find_price)
  from sell_stock_sold [OF sell] q' p obtain i' proceeds where
    pr: "num_mul rt q p = Some proceeds"
    and i': "get_user sess1 (users st1) = Some i'"
    and u2: "users st2 = (users st1)[i' := (users st1 ! i')
                 \<lparr>balance := num_add rt (balance (users st1 ! i')) proceeds\<rparr>]"
    by auto
  from c price pr have same_amount: "proceeds = c" by simp
  from i' sess1 u1 i have same_user: "i' = i"
    by (simp add: get_user_update_balance)
  from get_user_Some [OF i] have lt: "i < length (users st)" .
  from u2 u1 same_amount same_user lt
  have "users st2 = (users st)[i := (users st ! i)
       \<lparr>balance := num_add rt (num_sub rt (balance (users st ! i)) c) c\<rparr>]"
    by simp
  with i c price show ?thesis by auto
qed

theorem buy_then_sell_balance_witness:
  "buy_stock (exact_runtime sample_rows) (Some ''bob'') (one_user 100000 []) ''Apple''
     [''quantity'' \<mapsto> ''10'']
   = (Some ''bob'',
      one_user 98500 [\<lparr>user = ''bob'', company = ''Apple'', quantity = 10, buy_price = 150\<rparr>],
      Redirect To_portfolio_page (Some (Bought 10 ''Apple''))) \<and>
   sell_stock (exact_runtime sample_rows) (Some ''bob'')
     (one_user 98500 [\<lparr>user = ''bob'', company = ''Apple'', quantity = 10, buy_price = 150\<rparr>])
     ''Apple'' [''quantity'' \<mapsto> ''10'', ''sell_price'' \<mapsto> ''150'']
   = (Some ''bob'', one_user 100000 [], Redirect To_portfolio_page (Some Stock_sold)) \<and>
   (\<exists>i c. get_user (Some ''bob'') (users (one_user 100000 [])) = Some i \<and>
      num_mul (exact_runtime sample_rows) 10 150 = Some c \<and>
      users (one_user 100000 []) = (users (one_user 100000 []))
        [i := (users (one_user 100000 []) ! i)
           \<lparr>balance := num_add (exact_runtime sample_rows)
              (num_sub (exact_runtime sample_rows)
                 (balance (users (one_user 100000 []) ! i)) c) c\<rparr>])"
proof -
  let ?rt = "exact_runtime sample_rows"
  let ?h = "\<lparr>user = ''bob'', company = ''Apple'', quantity = 10, buy_price = 150 :: rat\<rparr>"
  have buy: "buy_stock ?rt (Some ''bob'') (one_user 100000 []) ''Apple''
       [''quantity'' \<mapsto> ''10'']
     = (Some ''bob'', one_user 98500 [?h], Redirect To_portfolio_page (Some (Bought 10 ''Apple'')))"
    by (simp add: buy_stock_def eval_defs)
  have sell: "sell_stock ?rt (Some ''bob'') (one_user 98500 [?h]) ''Apple''
       [''quantity'' \<mapsto> ''10'', ''sell_price'' \<mapsto> ''150'']
     = (Some ''bob'', one_user 100000 [], Redirect To_portfolio_page (Some Stock_sold))"
    by (simp add: sell_stock_def eval_defs)
  have q': "Option.bind ([''quantity'' \<mapsto> ''10'', ''sell_price'' \<mapsto> ''150''] ''quantity'')
      (py_int ?rt) = Some 10"
    by (simp add: eval_defs)
  have p: "Option.bind ([''quantity'' \<mapsto> ''10'', ''sell_price'' \<mapsto> ''150''] ''sell_price'')
      (py_float ?rt) = Some 150"
    by (simp add: eval_defs)
  have csv: "map_of COMPANIES ''Apple'' = Some ''Apple.csv''"
    by (simp add: COMPANIES_def)
  have same: "fst (latest ?rt ''Apple.csv'') = 150"
    by (simp add: eval_defs)
  from buy_then_sell_balance [OF buy sell q' p csv same] buy sell show ?thesis
    by blast
qed

end
